theory Spec2Isabelle
  imports Complex_Main "HOL-Library.Sublist"
begin

section \<open>Numbers\<close>

text \<open>
  The services compute on JavaScript numbers. The embedding is exact: a finite number is a
  rational (\<open>rat\<close>), so sums, differences and quotients are the mathematical ones and binary
  floating-point rounding error is outside the model. \<open>Math.round\<close> rounds to the nearest
  integer with ties going up, that is \<open>\<lfloor>x + 1/2\<rfloor>\<close>. The idiom \<open>e || 0\<close> replaces a falsy
  number (\<open>0\<close> or \<open>NaN\<close>) by \<open>0\<close>; on rationals only \<open>0\<close> is falsy.
\<close>

definition Math_round :: "rat \<Rightarrow> rat" where
  "Math_round x = of_int \<lfloor>x + 1 / 2\<rfloor>"

definition orZero :: "rat \<Rightarrow> rat" where
  "orZero x = (if x = 0 then 0 else x)"

definition orZeroNat :: "nat \<Rightarrow> nat" where
  "orZeroNat n = (if n = 0 then 0 else n)"

text \<open>\<open>Math.round(x * 100) / 100 || 0\<close> and \<open>Math.round(x * 10000) / 10000 || 0\<close>.\<close>

definition round2 :: "rat \<Rightarrow> rat" where
  "round2 x = orZero (Math_round (x * 100) / 100)"

definition round4 :: "rat \<Rightarrow> rat" where
  "round4 x = orZero (Math_round (x * 10000) / 10000)"

text \<open>
  \<open>Math.min(...xs)\<close> and \<open>Math.max(...xs)\<close>. They are only reached with a non-empty list
  (\<open>computeInsights\<close> rejects the empty one first), so the empty case, \<open>\<plusminus>Infinity\<close> in
  JavaScript, has no equation.
\<close>

fun Math_min :: "rat list \<Rightarrow> rat" where
  "Math_min (x # xs) = foldl min x xs"

fun Math_max :: "rat list \<Rightarrow> rat" where
  "Math_max (x # xs) = foldl max x xs"

section \<open>Entities\<close>

datatype TransactionType = DEBIT | CREDIT

datatype TransactionCategory =
    INCOME | TRANSFER | GROCERIES | ENTERTAINMENT | TRANSPORT | UTILITIES | HEALTHCARE
  | SHOPPING | DINING | EDUCATION | INVESTMENT | LOAN_PAYMENT | FEES_CHARGES | OTHER

datatype RiskLevel = LOW | MEDIUM | HIGH

text \<open>
  The fields that a parsed row (\<open>ParsedTransaction\<close>, csv-parser.service.ts) and a stored
  transaction (\<open>Transaction\<close>, transaction.entity.ts) have in common; the statements
  service stores the spread \<open>{...transaction, statementId}\<close> of the former as the latter.
  \<open>date\<close> is the time value of the \<open>Date\<close> in milliseconds; \<open>amount\<close> is the magnitude,
  the direction is \<open>type\<close>. The parameter is the type of the two numbers: a stored
  transaction holds decimals read back from the database, a parsed row holds whatever
  \<open>parseFloat\<close> returned.
\<close>

record 'n TransactionFields =
  date :: int
  description :: string
  amount :: 'n
  balance :: 'n
  type :: TransactionType
  category :: TransactionCategory
  isIncome :: bool
  categoryConfidence :: rat

type_synonym Transaction = "rat TransactionFields"

datatype js_error = Error string

section \<open>Insights computation (insights-computation.service.ts)\<close>

record IncomeAnalysis =
  avgMonthlyIncome :: rat
  totalIncome :: rat
  incomeTransactionCount :: nat

record CashFlowAnalysis =
  totalInflow :: rat
  totalOutflow :: rat
  netCashFlow :: rat

record SpendingBuckets =
  groceriesSpend :: rat
  entertainmentSpend :: rat
  transportSpend :: rat
  utilitiesSpend :: rat
  healthcareSpend :: rat
  shoppingSpend :: rat
  diningSpend :: rat
  otherSpend :: rat

text \<open>
  A risk flag is a message string built from a template; the model keeps the template and
  the number put into it.
\<close>

datatype RiskFlag =
    OverdraftIncidents nat
  | PotentialBouncedPayments nat
  | HighFeesCharged rat
  | LowAverageDailyBalance
  | VolatileSpendingPatterns

record RiskAnalysis =
  overdraftCount :: nat
  bouncedPaymentCount :: nat
  avgDailyBalance :: rat
  minBalance :: rat
  maxBalance :: rat
  riskLevel :: RiskLevel
  riskFlags :: "RiskFlag list"

record ParsingStats =
  parsingSuccessRate :: rat
  totalTransactions :: nat
  successfulTransactions :: nat
  failedTransactions :: nat

text \<open>
  \<open>ComputedInsights\<close> is the spread \<open>{...incomeAnalysis, ...cashFlowAnalysis, ...}\<close> of five
  objects whose keys are pairwise different: the model keeps the five parts.
\<close>

record ComputedInsights =
  incomeAnalysis :: IncomeAnalysis
  cashFlowAnalysis :: CashFlowAnalysis
  spendingBuckets :: SpendingBuckets
  riskAnalysis :: RiskAnalysis
  parsingStats :: ParsingStats

text \<open>\<open>xs.reduce((sum, t) => +sum + +t.amount, 0)\<close>: a left fold from \<open>0\<close>.\<close>

definition sumAmounts :: "Transaction list \<Rightarrow> rat" where
  "sumAmounts ts = foldl (\<lambda>sum t. sum + amount t) 0 ts"

definition msPerMonth :: rat where
  "msPerMonth = 30 * 24 * 60 * 60 * 1000"

definition computeIncomeAnalysis :: "Transaction list \<Rightarrow> IncomeAnalysis" where
  "computeIncomeAnalysis transactions =
     (let incomeTransactions = filter (\<lambda>t. type t = CREDIT) transactions;
          totalIncome = sumAmounts incomeTransactions;
          periodStart = Math_min (map (\<lambda>t. of_int (date t)) transactions);
          periodEnd = Math_max (map (\<lambda>t. of_int (date t)) transactions);
          periodMonths = max 1 ((periodEnd - periodStart) / msPerMonth);
          avgMonthlyIncome = totalIncome / periodMonths
      in \<lparr> avgMonthlyIncome = round2 avgMonthlyIncome,
           totalIncome = round2 totalIncome,
           incomeTransactionCount = orZeroNat (length incomeTransactions) \<rparr>)"

definition computeCashFlowAnalysis :: "Transaction list \<Rightarrow> CashFlowAnalysis" where
  "computeCashFlowAnalysis transactions =
     (let creditTransactions = filter (\<lambda>t. type t = CREDIT) transactions;
          debitTransactions = filter (\<lambda>t. type t = DEBIT) transactions;
          totalInflow = sumAmounts creditTransactions;
          totalOutflow = sumAmounts debitTransactions;
          netCashFlow = totalInflow - totalOutflow
      in \<lparr> totalInflow = round2 totalInflow,
           totalOutflow = round2 totalOutflow,
           netCashFlow = round2 netCashFlow \<rparr>)"

definition emptyBuckets :: SpendingBuckets where
  "emptyBuckets =
     \<lparr> groceriesSpend = 0, entertainmentSpend = 0, transportSpend = 0, utilitiesSpend = 0,
       healthcareSpend = 0, shoppingSpend = 0, diningSpend = 0, otherSpend = 0 \<rparr>"

text \<open>The body of the \<open>forEach\<close>: the \<open>switch\<close> on the category, \<open>default\<close> last.\<close>

definition addSpend :: "SpendingBuckets \<Rightarrow> Transaction \<Rightarrow> SpendingBuckets" where
  "addSpend buckets transaction =
     (let a = amount transaction in
      case category transaction of
        GROCERIES \<Rightarrow> buckets\<lparr>groceriesSpend := groceriesSpend buckets + a\<rparr>
      | ENTERTAINMENT \<Rightarrow> buckets\<lparr>entertainmentSpend := entertainmentSpend buckets + a\<rparr>
      | TRANSPORT \<Rightarrow> buckets\<lparr>transportSpend := transportSpend buckets + a\<rparr>
      | UTILITIES \<Rightarrow> buckets\<lparr>utilitiesSpend := utilitiesSpend buckets + a\<rparr>
      | HEALTHCARE \<Rightarrow> buckets\<lparr>healthcareSpend := healthcareSpend buckets + a\<rparr>
      | SHOPPING \<Rightarrow> buckets\<lparr>shoppingSpend := shoppingSpend buckets + a\<rparr>
      | DINING \<Rightarrow> buckets\<lparr>diningSpend := diningSpend buckets + a\<rparr>
      | _ \<Rightarrow> buckets\<lparr>otherSpend := otherSpend buckets + a\<rparr>)"

text \<open>The buckets after the \<open>forEach\<close> over the DEBIT transactions, before rounding.\<close>

definition accumulateBuckets :: "Transaction list \<Rightarrow> SpendingBuckets" where
  "accumulateBuckets transactions =
     foldl addSpend emptyBuckets (filter (\<lambda>t. type t = DEBIT) transactions)"

definition roundBuckets :: "SpendingBuckets \<Rightarrow> SpendingBuckets" where
  "roundBuckets b =
     \<lparr> groceriesSpend = round2 (groceriesSpend b),
       entertainmentSpend = round2 (entertainmentSpend b),
       transportSpend = round2 (transportSpend b),
       utilitiesSpend = round2 (utilitiesSpend b),
       healthcareSpend = round2 (healthcareSpend b),
       shoppingSpend = round2 (shoppingSpend b),
       diningSpend = round2 (diningSpend b),
       otherSpend = round2 (otherSpend b) \<rparr>"

definition computeSpendingBuckets :: "Transaction list \<Rightarrow> SpendingBuckets" where
  "computeSpendingBuckets transactions = roundBuckets (accumulateBuckets transactions)"

text \<open>
  The bounced-payment scan: \<open>for (let i = 0; i < transactions.length - 1; i++)\<close>, counting
  the positions where a DEBIT of more than 100 leaves a negative balance and the next
  transaction is a fee.
\<close>

definition bouncedAt :: "Transaction \<Rightarrow> Transaction \<Rightarrow> bool" where
  "bouncedAt current next \<longleftrightarrow>
     type current = DEBIT \<and> amount current > 100 \<and> balance current < 0
     \<and> category next = FEES_CHARGES"

function bouncedLoop :: "Transaction list \<Rightarrow> nat \<Rightarrow> nat \<Rightarrow> nat" where
  "bouncedLoop transactions i count =
     (if int i < int (length transactions) - 1
      then bouncedLoop transactions (i + 1)
             (if bouncedAt (transactions ! i) (transactions ! (i + 1))
              then count + 1 else count)
      else count)"
  by pat_completeness auto
termination
  by (relation "measure (\<lambda>(ts, i, c). length ts - i)") auto

declare bouncedLoop.simps [simp del]

definition volatileSpending :: "Transaction list \<Rightarrow> bool" where
  "volatileSpending transactions =
     (let debitAmounts = map amount (filter (\<lambda>t. type t = DEBIT) transactions) in
      if length debitAmounts > 0 then
        (let avgSpend = foldl (\<lambda>sum a. sum + a) 0 debitAmounts / of_nat (length debitAmounts);
             largeTransactions = length (filter (\<lambda>a. a > avgSpend * 3) debitAmounts)
         in of_nat largeTransactions > of_nat (length debitAmounts) * (1 / 10 :: rat))
      else False)"

definition computeRiskAnalysis :: "Transaction list \<Rightarrow> RiskAnalysis" where
  "computeRiskAnalysis transactions =
     (let balances = map balance transactions;
          minBalance = Math_min balances;
          maxBalance = Math_max balances;
          avgDailyBalance = foldl (\<lambda>sum b. sum + b) 0 balances / of_nat (length balances);
          overdraftCount = length (filter (\<lambda>b. b < 0) balances);
          flags1 = (if overdraftCount > 0 then [OverdraftIncidents overdraftCount] else []);
          bouncedPaymentCount = bouncedLoop transactions 0 0;
          flags2 = (if bouncedPaymentCount > 0
                    then flags1 @ [PotentialBouncedPayments bouncedPaymentCount] else flags1);
          feeTransactions = filter (\<lambda>t. category t = FEES_CHARGES) transactions;
          totalFees = sumAmounts feeTransactions;
          flags3 = (if totalFees > 100 then flags2 @ [HighFeesCharged totalFees] else flags2);
          flags4 = (if avgDailyBalance < 100 then flags3 @ [LowAverageDailyBalance] else flags3);
          flags5 = (if volatileSpending transactions
                    then flags4 @ [VolatileSpendingPatterns] else flags4);
          riskLevel =
            (if overdraftCount > 5 \<or> bouncedPaymentCount > 2 \<or> avgDailyBalance < 50
             then HIGH
             else if overdraftCount > 2 \<or> bouncedPaymentCount > 0 \<or> avgDailyBalance < 200
                     \<or> totalFees > 50
             then MEDIUM
             else LOW)
      in \<lparr> overdraftCount = orZeroNat overdraftCount,
           bouncedPaymentCount = orZeroNat bouncedPaymentCount,
           avgDailyBalance = round2 avgDailyBalance,
           minBalance = round2 minBalance,
           maxBalance = round2 maxBalance,
           riskLevel = riskLevel,
           riskFlags = flags5 \<rparr>)"

definition computeParsingStats :: "Transaction list \<Rightarrow> ParsingStats" where
  "computeParsingStats transactions =
     (let totalTransactions = length transactions;
          successfulTransactions = length transactions;
          failedTransactions = (0::nat);
          parsingSuccessRate =
            (if totalTransactions > 0
             then of_nat successfulTransactions / of_nat totalTransactions else (0::rat))
      in \<lparr> parsingSuccessRate = round4 parsingSuccessRate,
           totalTransactions = orZeroNat totalTransactions,
           successfulTransactions = orZeroNat successfulTransactions,
           failedTransactions = orZeroNat failedTransactions \<rparr>)"

text \<open>
  \<open>computeInsights(statementId)\<close> first reads the statement's transactions from the
  repository, ordered by date; the argument of the model is the list that query returns.
  \<open>throw new Error('No transactions found for statement')\<close> is the \<open>Inl\<close> result.
\<close>

definition computeInsights :: "Transaction list \<Rightarrow> js_error + ComputedInsights" where
  "computeInsights transactions =
     (if length transactions = 0
      then Inl (Error ''No transactions found for statement'')
      else Inr \<lparr> incomeAnalysis = computeIncomeAnalysis transactions,
                 cashFlowAnalysis = computeCashFlowAnalysis transactions,
                 spendingBuckets = computeSpendingBuckets transactions,
                 riskAnalysis = computeRiskAnalysis transactions,
                 parsingStats = computeParsingStats transactions \<rparr>)"

section \<open>Bureau client (bureau-http-client.service.ts)\<close>

record BureauData =
  score :: int
  risk_band :: string
  enquiries_6m :: int
  defaults :: int
  open_loans :: int
  trade_lines :: int
  reference_id :: string
  timestamp :: string

record BureauApiResponse =
  status :: string
  data :: BureauData
  request_id :: string
  processing_time_ms :: int

text \<open>
  The \<open>error\<close> string of a result is either a message taken from the failed request or the
  template \<open>Failed after ${maxRetries} retries: ${lastError}\<close>, kept with its two parts.
\<close>

datatype ErrorText = Message string | FailedAfterRetries int ErrorText

text \<open>
  \<open>BureauRequestResult\<close>. The elapsed time \<open>responseTime\<close> is read from the wall clock and
  is not part of the model; optional fields are options. The field \<open>data\<close> of the source is
  \<open>responseData\<close> here, since \<open>data\<close> is already the body's field.
\<close>

record BureauRequestResult =
  success :: bool
  responseData :: "BureauApiResponse option"
  error :: "ErrorText option"
  httpStatusCode :: nat
  retryCount :: nat
  bureauReferenceId :: "string option"

text \<open>
  What one HTTP call can do: answer, fail with an \<open>AxiosError\<close> (with the status of its
  response, if there is a response, and the message \<open>extractErrorMessage\<close> derives from
  it), or fail with any other exception (a timeout of the pipe, for instance).
\<close>

datatype HttpOutcome =
    Response nat BureauApiResponse
  | AxiosError "nat option" string
  | OtherError string

text \<open>\<open>error.response?.status || 0\<close>\<close>

definition statusOrZero :: "nat option \<Rightarrow> nat" where
  "statusOrZero st = (case st of None \<Rightarrow> 0 | Some n \<Rightarrow> (if n = 0 then 0 else n))"

text \<open>
  \<open>makeRequest\<close> catches every exception of the call and turns it into a failed result, so
  it always returns; its result type still has the \<open>Inl\<close> that the \<open>try\<close> of \<open>checkCredit\<close>
  is written for.
\<close>

definition makeRequest :: "HttpOutcome \<Rightarrow> js_error + BureauRequestResult" where
  "makeRequest outcome =
     (case outcome of
        Response st body \<Rightarrow>
          Inr \<lparr> success = True, responseData = Some body, error = None, httpStatusCode = st,
                retryCount = 0, bureauReferenceId = Some (reference_id (data body)) \<rparr>
      | AxiosError st errorMessage \<Rightarrow>
          Inr \<lparr> success = False, responseData = None, error = Some (Message errorMessage),
                httpStatusCode = statusOrZero st, retryCount = 0, bureauReferenceId = None \<rparr>
      | OtherError msg \<Rightarrow>
          Inr \<lparr> success = False, responseData = None, error = Some (Message msg),
                httpStatusCode = 0, retryCount = 0, bureauReferenceId = None \<rparr>)"

definition retryableStatuses :: "nat list" where
  "retryableStatuses = [0, 429, 500, 502, 503, 504]"

definition isRetryableError :: "nat \<Rightarrow> bool" where
  "isRetryableError statusCode \<longleftrightarrow> statusCode \<in> set retryableStatuses"

text \<open>\<open>result.error || 'Unknown error'\<close>: an absent or empty message is replaced.\<close>

definition errorOrUnknown :: "ErrorText option \<Rightarrow> ErrorText" where
  "errorOrUnknown e =
     (case e of
        None \<Rightarrow> Message ''Unknown error''
      | Some (Message m) \<Rightarrow> (if m = [] then Message ''Unknown error'' else Message m)
      | Some (FailedAfterRetries n m) \<Rightarrow> FailedAfterRetries n m)"

text \<open>
  The retry loop of \<open>checkCredit\<close>: \<open>for (let attempt = 0; attempt <= this.maxRetries;
  attempt++)\<close>. \<open>responses i\<close> is what the HTTP call of attempt \<open>i\<close> does. The sleep before
  a retry and the log lines change nothing that is returned. Besides the result, the model
  returns the number of calls of \<open>makeRequest\<close> that were made.
\<close>

function attemptLoop ::
  "int \<Rightarrow> (nat \<Rightarrow> HttpOutcome) \<Rightarrow> nat \<Rightarrow> nat \<Rightarrow> ErrorText \<Rightarrow> nat
     \<Rightarrow> BureauRequestResult \<times> nat"
where
  "attemptLoop maxRetries responses attempt retries lastError lastStatus =
     (if int attempt \<le> maxRetries then
        (let retries' = (if attempt > 0 then retries + 1 else retries) in
         case makeRequest (responses attempt) of
           Inr result \<Rightarrow>
             if success result then (result\<lparr>retryCount := retries'\<rparr>, attempt + 1)
             else if \<not> isRetryableError (httpStatusCode result)
             then (result\<lparr>retryCount := retries'\<rparr>, attempt + 1)
             else attemptLoop maxRetries responses (attempt + 1) retries'
                    (errorOrUnknown (error result)) (httpStatusCode result)
         | Inl (Error msg) \<Rightarrow>
             attemptLoop maxRetries responses (attempt + 1) retries' (Message msg) 500)
      else
        (\<lparr> success = False, responseData = None,
           error = Some (FailedAfterRetries maxRetries lastError),
           httpStatusCode = lastStatus, retryCount = retries, bureauReferenceId = None \<rparr>,
         attempt))"
  by pat_completeness auto
termination
  by (relation "measure (\<lambda>(m, r, a, c, e, s). nat (m + 1 - int a))") auto

declare attemptLoop.simps [simp del]

definition checkCredit :: "int \<Rightarrow> (nat \<Rightarrow> HttpOutcome) \<Rightarrow> BureauRequestResult \<times> nat" where
  "checkCredit maxRetries responses = attemptLoop maxRetries responses 0 0 (Message []) 0"

section \<open>Strings and numbers of the CSV parser\<close>

text \<open>
  A JavaScript string is modelled by a \<open>string\<close> of 8-bit characters, each a code unit
  below 256 (ASCII and Latin-1). In that range the white space of \<open>trim\<close>, of the regular
  expression class \<open>\s\<close> and of \<open>parseFloat\<close> is the same set of seven characters, and
  \<open>toLowerCase\<close> moves \<open>A\<close>-\<open>Z\<close> and the Latin-1 capitals by 32.
\<close>

definition isWhiteSpace :: "char \<Rightarrow> bool" where
  "isWhiteSpace c \<longleftrightarrow> (of_char c :: nat) \<in> {9, 10, 11, 12, 13, 32, 160}"

definition trim :: "string \<Rightarrow> string" where
  "trim s = rev (dropWhile isWhiteSpace (rev (dropWhile isWhiteSpace s)))"

definition lowerChar :: "char \<Rightarrow> char" where
  "lowerChar c =
     (let n = (of_char c :: nat) in
      if (65 \<le> n \<and> n \<le> 90) \<or> (192 \<le> n \<and> n \<le> 222 \<and> n \<noteq> 215)
      then char_of (n + 32) else c)"

definition toLowerCase :: "string \<Rightarrow> string" where
  "toLowerCase s = map lowerChar s"

text \<open>\<open>s.includes(k)\<close>, here \<open>includesStr s k\<close>: \<open>k\<close> starts at some position of \<open>s\<close>.\<close>

fun includesStr :: "string \<Rightarrow> string \<Rightarrow> bool" where
  "includesStr [] k \<longleftrightarrow> k = []"
| "includesStr (c # cs) k \<longleftrightarrow> prefix k (c # cs) \<or> includesStr cs k"

text \<open>
  The result of \<open>parseFloat\<close>: \<open>NaN\<close>, an infinity, or a finite number (exact, see above).
\<close>

datatype jsnum = NaN | PosInfinity | NegInfinity | Fin rat

definition isNaN :: "jsnum \<Rightarrow> bool" where
  "isNaN n \<longleftrightarrow> n = NaN"

text \<open>\<open>n >= 0\<close> and \<open>Math.abs(n)\<close>\<close>

fun geZero :: "jsnum \<Rightarrow> bool" where
  "geZero (Fin r) \<longleftrightarrow> r \<ge> 0"
| "geZero PosInfinity \<longleftrightarrow> True"
| "geZero NegInfinity \<longleftrightarrow> False"
| "geZero NaN \<longleftrightarrow> False"

fun Math_abs :: "jsnum \<Rightarrow> jsnum" where
  "Math_abs (Fin r) = Fin \<bar>r\<bar>"
| "Math_abs PosInfinity = PosInfinity"
| "Math_abs NegInfinity = PosInfinity"
| "Math_abs NaN = NaN"

definition isDigit :: "char \<Rightarrow> bool" where
  "isDigit c \<longleftrightarrow> 48 \<le> (of_char c :: nat) \<and> (of_char c :: nat) \<le> 57"

definition digitsValue :: "string \<Rightarrow> nat" where
  "digitsValue ds = foldl (\<lambda>n c. 10 * n + (of_char c - 48)) 0 ds"

text \<open>
  The exponent part \<open>e\<close>/\<open>E\<close>, optional sign, digits; without a digit there is no exponent
  part and the characters are left over.
\<close>

definition exponentValue :: "string \<Rightarrow> int" where
  "exponentValue s =
     (case s of
        [] \<Rightarrow> 0
      | c # r \<Rightarrow>
          if c = CHR ''e'' \<or> c = CHR ''E'' then
            (case r of
               [] \<Rightarrow> 0
             | d # r' \<Rightarrow>
                 if d = CHR ''-'' then
                   (if takeWhile isDigit r' = [] then 0
                    else - int (digitsValue (takeWhile isDigit r')))
                 else if d = CHR ''+'' then int (digitsValue (takeWhile isDigit r'))
                 else int (digitsValue (takeWhile isDigit r)))
          else 0)"

definition tenPower :: "int \<Rightarrow> rat" where
  "tenPower e = (if e \<ge> 0 then 10 ^ nat e else 1 / 10 ^ nat (- e))"

text \<open>
  \<open>parseFloat\<close> (ECMAScript): skip leading white space, take the longest prefix that is a
  decimal literal (sign, \<open>Infinity\<close> or digits with an optional fraction and exponent),
  ignore what follows; \<open>NaN\<close> when no prefix is one.
\<close>

definition parseUnsigned :: "bool \<Rightarrow> string \<Rightarrow> jsnum" where
  "parseUnsigned negative s =
     (if prefix ''Infinity'' s then (if negative then NegInfinity else PosInfinity)
      else
        (let intDigits = takeWhile isDigit s;
             afterInt = dropWhile isDigit s;
             hasPoint = (case afterInt of [] \<Rightarrow> False | c # r \<Rightarrow> c = CHR ''.'');
             fracDigits = (if hasPoint then takeWhile isDigit (tl afterInt) else []);
             afterFrac = (if hasPoint then dropWhile isDigit (tl afterInt) else afterInt)
         in if intDigits = [] \<and> fracDigits = [] then NaN
            else
              (let mantissa = of_nat (digitsValue intDigits)
                              + of_nat (digitsValue fracDigits) / 10 ^ length fracDigits;
                   v = mantissa * tenPower (exponentValue afterFrac)
               in Fin (if negative then - v else v))))"

definition parseFloat :: "string \<Rightarrow> jsnum" where
  "parseFloat str =
     (case dropWhile isWhiteSpace str of
        [] \<Rightarrow> NaN
      | c # r \<Rightarrow>
          if c = CHR ''-'' then parseUnsigned True r
          else if c = CHR ''+'' then parseUnsigned False r
          else parseUnsigned False (c # r))"

text \<open>
  \<open>s.replace(/[\<pounds>$\<euro>,\s]/g, '')\<close>: the pound sign is the code unit 163; the euro sign is not
  a code unit below 256 and so never occurs in a modelled string.
\<close>

definition isStripped :: "char \<Rightarrow> bool" where
  "isStripped c \<longleftrightarrow> c = char_of (163::nat) \<or> c = CHR ''$'' \<or> c = CHR '','' \<or> isWhiteSpace c"

definition stripAmount :: "string \<Rightarrow> string" where
  "stripAmount s = filter (\<lambda>c. \<not> isStripped c) s"

section \<open>CSV parser (csv-parser.service.ts)\<close>

text \<open>
  A row is the object the CSV reader builds: a column is absent (\<open>undefined\<close>), \<open>null\<close> or a
  string.
\<close>

datatype Cell = Null | Str string

type_synonym RawRow = "string \<rightharpoonup> Cell"

text \<open>\<open>rawData\<close> is \<open>JSON.stringify(row)\<close>; the model keeps the row it serialises.\<close>

record ParsedTransaction = "jsnum TransactionFields" +
  rawData :: RawRow

datatype RowError = InvalidDataFormat nat | RowFailed nat string

record ParseResult =
  transactions :: "ParsedTransaction list"
  totalRows :: nat
  successfulRows :: nat
  failedRows :: nat
  errors :: "RowError list"

definition incomeKeywords :: "string list" where
  "incomeKeywords =
     [''salary'', ''wage'', ''income'', ''dividend'', ''interest'', ''refund'', ''deposit'',
      ''credit transfer'', ''payment received'', ''cashback'', ''bonus'', ''commission'']"

text \<open>
  \<open>categoryKeywords\<close>: \<open>Object.entries\<close> lists the keys of the object literal in the order
  they are written.
\<close>

definition categoryKeywords :: "(TransactionCategory \<times> string list) list" where
  "categoryKeywords =
     [(GROCERIES, [''supermarket'', ''grocery'', ''food'', ''market'', ''tesco'', ''sainsbury'',
                   ''asda'']),
      (ENTERTAINMENT, [''cinema'', ''movie'', ''netflix'', ''spotify'', ''entertainment'',
                       ''game'', ''theatre'']),
      (TRANSPORT, [''uber'', ''taxi'', ''bus'', ''train'', ''fuel'', ''petrol'', ''parking'',
                   ''transport'']),
      (UTILITIES, [''electric'', ''gas'', ''water'', ''internet'', ''phone'', ''utility'',
                   ''council tax'']),
      (HEALTHCARE, [''pharmacy'', ''doctor'', ''hospital'', ''health'', ''medical'', ''dental'']),
      (SHOPPING, [''amazon'', ''shop'', ''store'', ''retail'', ''purchase'', ''online'']),
      (DINING, [''restaurant'', ''cafe'', ''takeaway'', ''mcdonald'', ''kfc'', ''dining'',
                ''food delivery'']),
      (EDUCATION, [''school'', ''university'', ''course'', ''education'', ''tuition'', ''books'']),
      (INVESTMENT, [''investment'', ''stocks'', ''shares'', ''trading'', ''crypto'', ''fund'']),
      (LOAN_PAYMENT, [''loan'', ''mortgage'', ''credit card'', ''repayment'', ''installment'']),
      (FEES_CHARGES, [''fee'', ''charge'', ''penalty'', ''overdraft'', ''commission'',
                      ''service charge''])]"

definition dateFields :: "string list" where
  "dateFields = [''date'', ''Date'', ''DATE'', ''transaction_date'', ''TransactionDate'']"

definition descriptionFields :: "string list" where
  "descriptionFields =
     [''description'', ''Description'', ''DESCRIPTION'', ''memo'', ''Memo'', ''details'',
      ''Details'']"

definition amountFields :: "string list" where
  "amountFields = [''amount'', ''Amount'', ''AMOUNT'', ''value'', ''Value'']"

definition balanceFields :: "string list" where
  "balanceFields = [''balance'', ''Balance'', ''BALANCE'', ''running_balance'', ''RunningBalance'']"

fun getFieldValue :: "RawRow \<Rightarrow> string list \<Rightarrow> string option" where
  "getFieldValue row [] = None"
| "getFieldValue row (field # possibleFields) =
     (case row field of
        None \<Rightarrow> getFieldValue row possibleFields
      | Some Null \<Rightarrow> getFieldValue row possibleFields
      | Some (Str v) \<Rightarrow> if v \<noteq> [] then Some (trim v) else getFieldValue row possibleFields)"

text \<open>
  The inner loop of \<open>categorizeTransaction\<close> over the keywords of one category: the
  confidence at the first keyword contained in the description, if there is one.
\<close>

fun matchKeywords :: "string \<Rightarrow> string list \<Rightarrow> rat option" where
  "matchKeywords lowerDescription [] = None"
| "matchKeywords lowerDescription (keyword # keywords) =
     (if includesStr lowerDescription (toLowerCase keyword)
      then Some (if lowerDescription = toLowerCase keyword then 1 else 8 / 10)
      else matchKeywords lowerDescription keywords)"

text \<open>The outer loop over the categories, with the default after it.\<close>

fun matchCategories ::
  "string \<Rightarrow> (TransactionCategory \<times> string list) list \<Rightarrow> TransactionCategory \<times> rat" where
  "matchCategories lowerDescription [] = (OTHER, 1 / 10)"
| "matchCategories lowerDescription ((cat, keywords) # entries) =
     (case matchKeywords lowerDescription keywords of
        Some confidence \<Rightarrow> (cat, confidence)
      | None \<Rightarrow> matchCategories lowerDescription entries)"

definition categorizeTransaction :: "string \<Rightarrow> TransactionCategory \<times> rat" where
  "categorizeTransaction descr = matchCategories (toLowerCase descr) categoryKeywords"

definition isIncomeTransaction :: "string \<Rightarrow> bool" where
  "isIncomeTransaction descr =
     list_ex (\<lambda>keyword. includesStr (toLowerCase descr) (toLowerCase keyword)) incomeKeywords"

text \<open>\<open>!s\<close> for a value that is \<open>null\<close> or a string: true for \<open>null\<close> and for the empty string.\<close>

definition falsy :: "string option \<Rightarrow> bool" where
  "falsy s \<longleftrightarrow> (case s of None \<Rightarrow> True | Some v \<Rightarrow> v = [])"

text \<open>
  \<open>parseRow\<close>. What \<open>new Date(dateStr)\<close> accepts is the JavaScript engine's matter and a
  parameter here: \<open>parseDate s\<close> is the time value, \<open>None\<close> for an invalid date. A thrown
  \<open>Error\<close> is the \<open>Inl\<close> result, a returned \<open>null\<close> is \<open>Inr None\<close>. The row number is only
  passed along, as in the source.
\<close>

definition parseRow ::
  "(string \<Rightarrow> int option) \<Rightarrow> RawRow \<Rightarrow> nat \<Rightarrow> js_error + ParsedTransaction option" where
  "parseRow parseDate row rowNumber =
     (let dateStr = getFieldValue row dateFields;
          descr = getFieldValue row descriptionFields;
          amountStr = getFieldValue row amountFields;
          balanceStr = getFieldValue row balanceFields
      in
      if falsy dateStr \<or> falsy descr \<or> falsy amountStr then Inr None
      else
        (case parseDate (the dateStr) of
           None \<Rightarrow> Inl (Error (''Invalid date format: '' @ the dateStr))
         | Some dateValue \<Rightarrow>
             (let amt = parseFloat (stripAmount (the amountStr)) in
              if isNaN amt then Inl (Error (''Invalid amount format: '' @ the amountStr))
              else
                (let bal =
                       (if \<not> falsy balanceStr then
                          (let b = parseFloat (stripAmount (the balanceStr))
                           in if isNaN b then Fin 0 else b)
                        else Fin 0);
                     ty = (if geZero amt then CREDIT else DEBIT);
                     categoryResult = categorizeTransaction (the descr);
                     income = (ty = CREDIT \<and> isIncomeTransaction (the descr))
                 in Inr (Some \<lparr> date = dateValue,
                                 description = trim (the descr),
                                 amount = Math_abs amt,
                                 balance = bal,
                                 type = ty,
                                 category = fst categoryResult,
                                 isIncome = income,
                                 categoryConfidence = snd categoryResult,
                                 rawData = row \<rparr>)))))"

text \<open>
  The \<open>data\<close> handler of \<open>parseCSV\<close>, which the statements service repeats in
  \<open>processStatementFromBuffer\<close>: one row is counted and either kept or recorded as failed.
\<close>

definition onData :: "(string \<Rightarrow> int option) \<Rightarrow> ParseResult \<Rightarrow> RawRow \<Rightarrow> ParseResult" where
  "onData parseDate st row =
     (let n = totalRows st + 1 in
      case parseRow parseDate row n of
        Inr (Some transaction) \<Rightarrow>
          st\<lparr> totalRows := n, transactions := transactions st @ [transaction],
              successfulRows := successfulRows st + 1 \<rparr>
      | Inr None \<Rightarrow>
          st\<lparr> totalRows := n, failedRows := failedRows st + 1,
              errors := errors st @ [InvalidDataFormat n] \<rparr>
      | Inl (Error msg) \<Rightarrow>
          st\<lparr> totalRows := n, failedRows := failedRows st + 1,
              errors := errors st @ [RowFailed n msg] \<rparr>)"

definition parseCSV :: "(string \<Rightarrow> int option) \<Rightarrow> RawRow list \<Rightarrow> ParseResult" where
  "parseCSV parseDate rows =
     foldl (onData parseDate)
       \<lparr> transactions = [], totalRows = 0, successfulRows = 0, failedRows = 0, errors = [] \<rparr>
       rows"

section \<open>A date parser for the examples\<close>

text \<open>
  The one form of date string whose meaning ECMAScript fixes for every engine is the
  date-only form \<open>YYYY-MM-DD\<close>, read as midnight UTC. \<open>isoDateOnly\<close> accepts exactly that
  form and is what the examples below pass for the parameter \<open>parseDate\<close>.
\<close>

definition isLeapYear :: "int \<Rightarrow> bool" where
  "isLeapYear y \<longleftrightarrow> y mod 4 = 0 \<and> (y mod 100 \<noteq> 0 \<or> y mod 400 = 0)"

definition daysInMonth :: "int \<Rightarrow> int \<Rightarrow> int" where
  "daysInMonth y m =
     (if m = 2 then (if isLeapYear y then 29 else 28)
      else if m = 4 \<or> m = 6 \<or> m = 9 \<or> m = 11 then 30 else 31)"

text \<open>Days from 1970-01-01 to the given day of the proleptic Gregorian calendar.\<close>

definition daysFromCivil :: "int \<Rightarrow> int \<Rightarrow> int \<Rightarrow> int" where
  "daysFromCivil y m d =
     (let y' = (if m \<le> 2 then y - 1 else y);
          era = y' div 400;
          yoe = y' - era * 400;
          doy = (153 * ((m + 9) mod 12) + 2) div 5 + d - 1;
          doe = yoe * 365 + yoe div 4 - yoe div 100 + doy
      in era * 146097 + doe - 719468)"

definition isoDateOnly :: "string \<Rightarrow> int option" where
  "isoDateOnly s =
     (if length s = 10 \<and> s ! 4 = CHR ''-'' \<and> s ! 7 = CHR ''-''
         \<and> list_all isDigit (take 4 s) \<and> list_all isDigit (take 2 (drop 5 s))
         \<and> list_all isDigit (drop 8 s)
      then
        (let y = int (digitsValue (take 4 s));
             m = int (digitsValue (take 2 (drop 5 s)));
             d = int (digitsValue (drop 8 s))
         in if 1 \<le> m \<and> m \<le> 12 \<and> 1 \<le> d \<and> d \<le> daysInMonth y m
            then Some (daysFromCivil y m d * 86400000) else None)
      else None)"

section \<open>Sample data\<close>

definition sampleBody :: BureauApiResponse where
  "sampleBody =
     \<lparr> status = ''success'',
       data = \<lparr> score = 720, risk_band = ''B'', enquiries_6m = 1, defaults = 0, open_loans = 2,
                trade_lines = 5, reference_id = ''REF-1'', timestamp = ''2025-01-01T00:00:00.000Z'' \<rparr>,
       request_id = ''req-1'', processing_time_ms = 120 \<rparr>"

text \<open>Three failures with status 500, then an answer.\<close>

definition threeFailuresThenSuccess :: "nat \<Rightarrow> HttpOutcome" where
  "threeFailuresThenSuccess i =
     (if i < 3 then AxiosError (Some 500) ''Bureau service internal error''
      else Response 200 sampleBody)"

text \<open>Every call fails with status 400.\<close>

definition alwaysBadRequest :: "nat \<Rightarrow> HttpOutcome" where
  "alwaysBadRequest i = AxiosError (Some 400) ''Bad request - invalid data provided''"

text \<open>Rows as the CSV reader hands them over, and a stored transaction.\<close>

definition rowGrocery :: RawRow where
  "rowGrocery =
     [''date'' \<mapsto> Str ''2025-01-02'', ''description'' \<mapsto> Str ''Grocery Store'',
      ''amount'' \<mapsto> Str ''-120.50'']"

definition rowInvalidDate :: RawRow where
  "rowInvalidDate =
     [''date'' \<mapsto> Str ''invalid-date'', ''description'' \<mapsto> Str ''Test Transaction'',
      ''amount'' \<mapsto> Str ''100.00'', ''balance'' \<mapsto> Str ''1000.00'']"




definition storedGrocery :: Transaction where
  "storedGrocery =
     \<lparr> date = 1735776000000, description = ''Grocery Store'', amount = 241 / 2, balance = 0,
       type = DEBIT, category = GROCERIES, isIncome = False, categoryConfidence = 8 / 10 \<rparr>"



section \<open>The vocabulary of the specification\<close>

text \<open>
  The quantities the specification names, written after its words; the theorems below
  compare them with what the services compute.
\<close>











text \<open>
  A transient outcome of one attempt: a failure without a status, or with a status in
  \<open>{429, 500, 502, 503, 504}\<close>. A permanent status is one of \<open>{400, 401, 403, 404}\<close>.
\<close>

definition transientOutcome :: "HttpOutcome \<Rightarrow> bool" where
  "transientOutcome outcome =
     (case outcome of
        Response st body \<Rightarrow> False
      | AxiosError None msg \<Rightarrow> True
      | AxiosError (Some st) msg \<Rightarrow> st \<in> {429, 500, 502, 503, 504}
      | OtherError msg \<Rightarrow> True)"

text \<open>An outcome after which the loop of \<open>checkCredit\<close> goes on to the next attempt.\<close>

definition retriedOutcome :: "HttpOutcome \<Rightarrow> bool" where
  "retriedOutcome outcome =
     (case outcome of
        Response st body \<Rightarrow> False
      | AxiosError st msg \<Rightarrow> isRetryableError (statusOrZero st)
      | OtherError msg \<Rightarrow> True)"

definition permanentStatus :: "nat \<Rightarrow> bool" where
  "permanentStatus st \<longleftrightarrow> st \<in> {400, 401, 403, 404}"




text \<open>
  The first category of the table one of whose keywords occurs in a lower-cased
  description, and the first keyword of a category that does.
\<close>

definition firstCategory :: "string \<Rightarrow> (TransactionCategory \<times> string list) option" where
  "firstCategory lowered =
     find (\<lambda>entry. list_ex (\<lambda>keyword. sublist keyword lowered) (snd entry)) categoryKeywords"

definition matchedKeyword :: "string \<Rightarrow> string list \<Rightarrow> string option" where
  "matchedKeyword lowered keywords = find (\<lambda>keyword. sublist keyword lowered) keywords"





section \<open>Auxiliary facts about the numbers\<close>



lemma orZero_id: "orZero x = x"
  by (simp add: orZero_def)

lemma orZeroNat_id: "orZeroNat n = n"
  by (simp add: orZeroNat_def)

lemma Math_round_of_int: "Math_round (of_int n) = of_int n"
proof -
  have "\<lfloor>(of_int n :: rat) + 1 / 2\<rfloor> = n"
    by linarith
  then show ?thesis
    by (simp add: Math_round_def)
qed


lemma round4_one: "round4 1 = 1"
  using Math_round_of_int[of 10000] by (simp add: round4_def orZero_id)







section \<open>Insights\<close>


text \<open>
  Claim C9. \<open>computeInsights\<close> on the empty list of transactions fails with the error
  \<open>No transactions found for statement\<close>; it returns no \<open>ComputedInsights\<close> at all, so in
  particular no zero-valued one.
\<close>

theorem computeInsights_empty_fails:
  "computeInsights [] = Inl (Error ''No transactions found for statement'')
   \<and> (\<forall>v. computeInsights [] \<noteq> Inr v)"
  by (simp add: computeInsights_def)

subsection \<open>Cash flow\<close>





subsection \<open>Spending buckets\<close>







subsection \<open>Risk level\<close>







lemma computeParsingStats_nonempty:
  "ts \<noteq> [] \<Longrightarrow> computeParsingStats ts =
     \<lparr> parsingSuccessRate = 1, totalTransactions = length ts,
       successfulTransactions = length ts, failedTransactions = 0 \<rparr>"
  by (simp add: computeParsingStats_def Let_def round4_one orZeroNat_id)


section \<open>Bureau client\<close>

lemma transient_retried: "transientOutcome outcome \<Longrightarrow> retriedOutcome outcome"
  by (auto simp: transientOutcome_def retriedOutcome_def isRetryableError_def
      retryableStatuses_def statusOrZero_def split: HttpOutcome.splits option.splits)

lemma attemptLoop_retried:
  assumes "int a \<le> m" "retriedOutcome (rs a)"
  shows "\<exists>e s. attemptLoop m rs a (a - 1) e0 s0 = attemptLoop m rs (a + 1) a e s"
proof (cases "rs a")
  case (Response st body)
  with assms show ?thesis by (simp add: retriedOutcome_def)
next
  case (AxiosError st msg)
  with assms have "isRetryableError (statusOrZero st)"
    by (simp add: retriedOutcome_def)
  with assms AxiosError show ?thesis
    by (subst attemptLoop.simps) (auto simp: makeRequest_def Let_def)
next
  case (OtherError msg)
  have "isRetryableError 0"
    by (simp add: isRetryableError_def retryableStatuses_def)
  with assms OtherError show ?thesis
    by (subst attemptLoop.simps) (auto simp: makeRequest_def Let_def)
qed

lemma attemptLoop_reaches:
  assumes "int k \<le> m" "\<forall>i<k. retriedOutcome (rs i)"
  shows "j \<le> k \<Longrightarrow> \<exists>e s. attemptLoop m rs 0 0 e0 s0 = attemptLoop m rs j (j - 1) e s"
proof (induction j)
  case 0
  show ?case by auto
next
  case (Suc j)
  then obtain e s where reach: "attemptLoop m rs 0 0 e0 s0 = attemptLoop m rs j (j - 1) e s"
    by auto
  from Suc.prems assms have "int j \<le> m" "retriedOutcome (rs j)"
    by auto
  then have "\<exists>e' s'. attemptLoop m rs j (j - 1) e s = attemptLoop m rs (j + 1) j e' s'"
    by (rule attemptLoop_retried)
  with reach show ?case
    by auto
qed

lemma attemptLoop_returns_success:
  assumes "int k \<le> m" "rs k = Response st body"
  shows "attemptLoop m rs k (k - 1) e s =
           (\<lparr> success = True, responseData = Some body, error = None, httpStatusCode = st,
               retryCount = k, bureauReferenceId = Some (reference_id (data body)) \<rparr>, k + 1)"
  using assms by (subst attemptLoop.simps) (auto simp: makeRequest_def Let_def)

lemma attemptLoop_returns_permanent:
  assumes "int k \<le> m" "rs k = AxiosError (Some st) msg" "permanentStatus st"
  shows "attemptLoop m rs k (k - 1) e s =
           (\<lparr> success = False, responseData = None, error = Some (Message msg),
               httpStatusCode = st, retryCount = k, bureauReferenceId = None \<rparr>, k + 1)"
proof -
  from assms(3) have "\<not> isRetryableError st" "st \<noteq> 0"
    by (auto simp: permanentStatus_def isRetryableError_def retryableStatuses_def)
  with assms show ?thesis
    by (subst attemptLoop.simps) (auto simp: makeRequest_def Let_def statusOrZero_def)
qed

lemma attemptLoop_calls_bound:
  "snd (attemptLoop m rs a c e s) \<le> max a (nat (m + 1))"
proof (induction m rs a c e s rule: attemptLoop.induct)
  case (1 m rs a c e s)
  show ?case
  proof (cases "int a \<le> m")
    case False
    then show ?thesis by (subst attemptLoop.simps) simp
  next
    case True
    note le = True
    obtain r where mk: "makeRequest (rs a) = Inr r"
      by (cases "rs a") (simp_all add: makeRequest_def)
    show ?thesis
    proof (cases "success r \<or> \<not> isRetryableError (httpStatusCode r)")
      case True
      with le mk show ?thesis
        by (subst attemptLoop.simps) (auto simp: Let_def)
    next
      case False
      with le mk have
        "attemptLoop m rs a c e s
           = attemptLoop m rs (a + 1) (if a > 0 then c + 1 else c)
               (errorOrUnknown (error r)) (httpStatusCode r)"
        by (subst attemptLoop.simps) (auto simp: Let_def)
      moreover have "snd (attemptLoop m rs (a + 1) (if a > 0 then c + 1 else c)
               (errorOrUnknown (error r)) (httpStatusCode r)) \<le> max (a + 1) (nat (m + 1))"
        using "1.IH" le mk False by auto
      ultimately show ?thesis
        using le by auto
    qed
  qed
qed

text \<open>
  Claim C4. When the first \<open>k\<close> attempts end in transient failures, attempt \<open>k + 1\<close> is
  answered and \<open>k\<close> is at most \<open>maxRetries\<close>, the result of \<open>checkCredit\<close> has
  \<open>success = true\<close> and \<open>retryCount = k\<close>, and exactly \<open>k + 1\<close> requests were made. Whatever
  the attempts do, no more than \<open>maxRetries + 1\<close> requests are made: at most 4 for
  \<open>maxRetries = 3\<close>.
\<close>

theorem checkCredit_retries_then_succeeds:
  assumes "int k \<le> maxRetries"
      and "\<forall>i<k. transientOutcome (responses i)"
      and "responses k = Response st body"
  shows "success (fst (checkCredit maxRetries responses))
         \<and> retryCount (fst (checkCredit maxRetries responses)) = k
         \<and> snd (checkCredit maxRetries responses) = k + 1
         \<and> snd (checkCredit maxRetries anyResponses) \<le> nat (maxRetries + 1)
         \<and> snd (checkCredit 3 anyResponses) \<le> 4"
proof -
  from assms(2) have "\<forall>i<k. retriedOutcome (responses i)"
    by (simp add: transient_retried)
  with assms(1) have "\<exists>e s. attemptLoop maxRetries responses 0 0 (Message []) 0
                          = attemptLoop maxRetries responses k (k - 1) e s"
    by (rule attemptLoop_reaches) simp
  then obtain e s where
    "checkCredit maxRetries responses = attemptLoop maxRetries responses k (k - 1) e s"
    by (auto simp: checkCredit_def)
  moreover have "attemptLoop maxRetries responses k (k - 1) e s =
           (\<lparr> success = True, responseData = Some body, error = None, httpStatusCode = st,
               retryCount = k, bureauReferenceId = Some (reference_id (data body)) \<rparr>, k + 1)"
    using assms(1) assms(3) by (rule attemptLoop_returns_success)
  ultimately have run: "checkCredit maxRetries responses =
           (\<lparr> success = True, responseData = Some body, error = None, httpStatusCode = st,
               retryCount = k, bureauReferenceId = Some (reference_id (data body)) \<rparr>, k + 1)"
    by simp
  have bound: "snd (checkCredit m rs) \<le> nat (m + 1)" for m rs
    using attemptLoop_calls_bound[of m rs 0 0 "Message []" 0] by (simp add: checkCredit_def)
  from bound[of 3 anyResponses] have "snd (checkCredit 3 anyResponses) \<le> 4"
    by simp
  with run bound[of maxRetries anyResponses] show ?thesis
    by simp
qed

theorem checkCredit_retries_then_succeeds_witness:
  "success (fst (checkCredit 3 threeFailuresThenSuccess))
   \<and> retryCount (fst (checkCredit 3 threeFailuresThenSuccess)) = 3
   \<and> snd (checkCredit 3 threeFailuresThenSuccess) = 4"
proof -
  have h1: "int 3 \<le> 3" by simp
  have h2: "\<forall>i<3. transientOutcome (threeFailuresThenSuccess i)"
    by (simp add: threeFailuresThenSuccess_def transientOutcome_def)
  have h3: "threeFailuresThenSuccess 3 = Response 200 sampleBody"
    by (simp add: threeFailuresThenSuccess_def)
  from h1 h2 h3 have
    "success (fst (checkCredit 3 threeFailuresThenSuccess))
     \<and> retryCount (fst (checkCredit 3 threeFailuresThenSuccess)) = 3
     \<and> snd (checkCredit 3 threeFailuresThenSuccess) = 3 + 1
     \<and> snd (checkCredit 3 threeFailuresThenSuccess) \<le> nat (3 + 1)
     \<and> snd (checkCredit 3 threeFailuresThenSuccess) \<le> 4"
    by (rule checkCredit_retries_then_succeeds)
  then show ?thesis
    by simp
qed

text \<open>
  Claim C5. When attempt \<open>k + 1\<close> is reached (every earlier attempt was one the loop
  retries) and fails with a status in \<open>{400, 401, 403, 404}\<close>, \<open>checkCredit\<close> returns right
  after it: the result has \<open>success = false\<close>, that status, and \<open>retryCount = k\<close>, the number of
  retries made so far, and exactly \<open>k + 1\<close> requests were made. In particular a failure
  with status 400 on the first attempt gives \<open>retryCount = 0\<close> after a single request.
\<close>

theorem checkCredit_permanent_stops:
  assumes "int k \<le> maxRetries"
      and "\<forall>i<k. retriedOutcome (responses i)"
      and "responses k = AxiosError (Some st) msg"
      and "permanentStatus st"
  shows "\<not> success (fst (checkCredit maxRetries responses))
         \<and> httpStatusCode (fst (checkCredit maxRetries responses)) = st
         \<and> retryCount (fst (checkCredit maxRetries responses)) = k
         \<and> snd (checkCredit maxRetries responses) = k + 1"
proof -
  from assms(1) assms(2) have "\<exists>e s. attemptLoop maxRetries responses 0 0 (Message []) 0
                          = attemptLoop maxRetries responses k (k - 1) e s"
    by (rule attemptLoop_reaches) simp
  then obtain e s where
    "checkCredit maxRetries responses = attemptLoop maxRetries responses k (k - 1) e s"
    by (auto simp: checkCredit_def)
  moreover have "attemptLoop maxRetries responses k (k - 1) e s =
           (\<lparr> success = False, responseData = None, error = Some (Message msg),
               httpStatusCode = st, retryCount = k, bureauReferenceId = None \<rparr>, k + 1)"
    using assms(1) assms(3) assms(4) by (rule attemptLoop_returns_permanent)
  ultimately show ?thesis
    by simp
qed

theorem checkCredit_permanent_stops_witness:
  "\<not> success (fst (checkCredit 3 alwaysBadRequest))
   \<and> httpStatusCode (fst (checkCredit 3 alwaysBadRequest)) = 400
   \<and> retryCount (fst (checkCredit 3 alwaysBadRequest)) = 0
   \<and> snd (checkCredit 3 alwaysBadRequest) = 1"
proof -
  have h1: "int 0 \<le> 3" by simp
  have h2: "\<forall>i<0. retriedOutcome (alwaysBadRequest i)" by simp
  have h3: "alwaysBadRequest 0 = AxiosError (Some 400) ''Bad request - invalid data provided''"
    by (simp add: alwaysBadRequest_def)
  have h4: "permanentStatus 400" by (simp add: permanentStatus_def)
  from h1 h2 h3 h4 have
    "\<not> success (fst (checkCredit 3 alwaysBadRequest))
     \<and> httpStatusCode (fst (checkCredit 3 alwaysBadRequest)) = 400
     \<and> retryCount (fst (checkCredit 3 alwaysBadRequest)) = 0
     \<and> snd (checkCredit 3 alwaysBadRequest) = 0 + 1"
    by (rule checkCredit_permanent_stops)
  then show ?thesis
    by simp
qed

section \<open>Categorizer\<close>

lemma includesStr_sublist: "includesStr s k \<longleftrightarrow> sublist k s"
  by (induction s) (simp_all add: sublist_Cons_right)

lemma keywords_lower_case:
  "list_all (\<lambda>entry. list_all (\<lambda>keyword. toLowerCase keyword = keyword) (snd entry)) categoryKeywords"
  by code_simp

lemma matchKeywords_find:
  assumes "list_all (\<lambda>keyword. toLowerCase keyword = keyword) kws"
  shows "matchKeywords lowered kws
           = map_option (\<lambda>keyword. if lowered = keyword then 1 else 8 / 10)
               (matchedKeyword lowered kws)"
  using assms by (induction kws) (simp_all add: matchedKeyword_def includesStr_sublist)

lemma matchedKeyword_None:
  "matchedKeyword lowered kws = None \<longleftrightarrow> \<not> list_ex (\<lambda>keyword. sublist keyword lowered) kws"
  by (auto simp: matchedKeyword_def find_None_iff list_ex_iff)

lemma matchCategories_find:
  assumes "list_all (\<lambda>entry. list_all (\<lambda>keyword. toLowerCase keyword = keyword) (snd entry)) entries"
  shows "matchCategories lowered entries
           = (case find (\<lambda>entry. list_ex (\<lambda>keyword. sublist keyword lowered) (snd entry)) entries of
                None \<Rightarrow> (OTHER, 1 / 10)
              | Some (cat, kws) \<Rightarrow>
                  (cat, if matchedKeyword lowered kws = Some lowered then 1 else 8 / 10))"
  using assms
proof (induction entries)
  case Nil
  show ?case by simp
next
  case (Cons entry entries)
  obtain cat kws where entry: "entry = (cat, kws)"
    by (cases entry)
  from Cons.prems entry have lower: "list_all (\<lambda>keyword. toLowerCase keyword = keyword) kws"
    by simp
  show ?case
  proof (cases "matchedKeyword lowered kws")
    case None
    with Cons entry lower show ?thesis
      using matchedKeyword_None[of lowered kws]
      by (simp add: matchKeywords_find)
  next
    case (Some keyword)
    then have "list_ex (\<lambda>keyword. sublist keyword lowered) kws"
      using matchedKeyword_None[of lowered kws] by simp
    with Some entry lower show ?thesis
      by (auto simp: matchKeywords_find)
  qed
qed

text \<open>
  Claim C7. \<open>categorizeTransaction\<close> returns the first category of the table, in table
  order, one of whose keywords occurs in the lower-cased description, whatever the later
  categories contain; the confidence is 1 when the first keyword of that category that
  occurs in the description is the whole lower-cased description, and 0.8 otherwise. When
  no keyword of any category occurs, the result is OTHER with confidence 0.1.
\<close>

theorem categorize_first_match:
  "categorizeTransaction descr =
     (case firstCategory (toLowerCase descr) of
        None \<Rightarrow> (OTHER, 1 / 10)
      | Some (cat, keywords) \<Rightarrow>
          (cat, if matchedKeyword (toLowerCase descr) keywords = Some (toLowerCase descr)
                then 1 else 8 / 10))"
  unfolding categorizeTransaction_def firstCategory_def
  by (rule matchCategories_find) (rule keywords_lower_case)

theorem categorize_first_match_witness:
  "categorizeTransaction ''Grocery Store'' = (GROCERIES, 8 / 10)"
proof -
  have "firstCategory (toLowerCase ''Grocery Store'')
          = Some (GROCERIES, [''supermarket'', ''grocery'', ''food'', ''market'', ''tesco'',
                              ''sainsbury'', ''asda''])"
    by code_simp
  moreover have "matchedKeyword (toLowerCase ''Grocery Store'')
           [''supermarket'', ''grocery'', ''food'', ''market'', ''tesco'', ''sainsbury'', ''asda'']
          \<noteq> Some (toLowerCase ''Grocery Store'')"
    by code_simp
  ultimately show ?thesis
    using categorize_first_match[of "''Grocery Store''"] by simp
qed

section \<open>Row parser\<close>

subsection \<open>Field resolution\<close>














subsection \<open>Amounts\<close>
















section \<open>Parsing statistics\<close>

text \<open>
  Claim C1 does not hold of the code: \<open>computeInsights\<close> is not given the outcome of the
  ingestion; \<open>computeParsingStats\<close> reports the number of stored transactions as both the
  total and the successful count, and no failed row. For a statement of two rows of which
  the second has an invalid date, the ingestion counts 2 rows, 1 successful and 1 failed,
  and stores one transaction; the insights of that statement report 1, 1 and 0, with a
  success rate of 1 instead of 0.5.
\<close>

theorem parsing_stats_ignore_failed_rows:
  "totalRows (parseCSV isoDateOnly [rowGrocery, rowInvalidDate]) = 2
   \<and> successfulRows (parseCSV isoDateOnly [rowGrocery, rowInvalidDate]) = 1
   \<and> failedRows (parseCSV isoDateOnly [rowGrocery, rowInvalidDate]) = 1
   \<and> errors (parseCSV isoDateOnly [rowGrocery, rowInvalidDate])
       = [RowFailed 2 ''Invalid date format: invalid-date'']
   \<and> map (\<lambda>p. (date p, description p, amount p, balance p, type p, category p, isIncome p,
                 categoryConfidence p))
         (transactions (parseCSV isoDateOnly [rowGrocery, rowInvalidDate]))
       = [(1735776000000, ''Grocery Store'', Fin (241 / 2), Fin 0, DEBIT, GROCERIES, False, 8 / 10)]
   \<and> parsingStats (projr (computeInsights [storedGrocery]))
       = \<lparr> parsingSuccessRate = 1, totalTransactions = 1, successfulTransactions = 1,
           failedTransactions = 0 \<rparr>"
proof -
  have "parsingStats (projr (computeInsights [storedGrocery]))
       = \<lparr> parsingSuccessRate = 1, totalTransactions = 1, successfulTransactions = 1,
           failedTransactions = 0 \<rparr>"
    by (simp add: computeInsights_def computeParsingStats_nonempty)
  moreover have "totalRows (parseCSV isoDateOnly [rowGrocery, rowInvalidDate]) = 2"
    by code_simp
  moreover have "successfulRows (parseCSV isoDateOnly [rowGrocery, rowInvalidDate]) = 1"
    by code_simp
  moreover have "failedRows (parseCSV isoDateOnly [rowGrocery, rowInvalidDate]) = 1"
    by code_simp
  moreover have "errors (parseCSV isoDateOnly [rowGrocery, rowInvalidDate])
       = [RowFailed 2 ''Invalid date format: invalid-date'']"
    by code_simp
  moreover have "map (\<lambda>p. (date p, description p, amount p, balance p, type p, category p, isIncome p,
                 categoryConfidence p))
         (transactions (parseCSV isoDateOnly [rowGrocery, rowInvalidDate]))
       = [(1735776000000, ''Grocery Store'', Fin (241 / 2), Fin 0, DEBIT, GROCERIES, False, 8 / 10)]"
    by code_simp
  ultimately show ?thesis
    by simp
qed

end
